theory Spec2Isabelle
  imports Main "HOL-Library.Sublist"
begin

section \<open>Strings and JavaScript truthiness\<close>

text \<open>
  A JavaScript string is modelled as a \<^typ>\<open>string\<close>; one \<^typ>\<open>char\<close> stands for one
  code unit, so only code units below 256 are covered. \<open>String.prototype.trim\<close> strips
  white space and line terminators from both ends: below 256 these are TAB, LF, VT, FF,
  CR, SPACE and NBSP (0xA0).
\<close>

definition is_ws :: "char \<Rightarrow> bool" where
  "is_ws c = (of_char c \<in> {9, 10, 11, 12, 13, 32, 160 :: nat})"

definition trim :: "string \<Rightarrow> string" where
  "trim s = rev (dropWhile is_ws (rev (dropWhile is_ws s)))"

text \<open>\<open>!s\<close> for a value of type \<open>string | null | undefined\<close>: null, undefined and the
  empty string are falsy.\<close>

fun truthy :: "string option \<Rightarrow> bool" where
  "truthy None = False"
| "truthy (Some s) = (s \<noteq> [])"

section \<open>HTTP client: the authorization header\<close>

text \<open>
  \<^verbatim>\<open>
  export function buildAuthHeader(token: string | null | undefined): string | undefined {
    if (!token) { return undefined; }
    return token.startsWith("Bearer ") ? token : `Bearer ${token}`;
  }
  \<close>
\<close>

definition buildAuthHeader :: "string option \<Rightarrow> string option" where
  "buildAuthHeader token =
     (case token of
        None \<Rightarrow> None
      | Some t \<Rightarrow>
          if t = [] then None
          else if prefix ''Bearer '' t then Some t
          else Some (''Bearer '' @ t))"

section \<open>Paging calculator\<close>

text \<open>
  JavaScript numbers are modelled as \<^typ>\<open>int\<close>: page indices, page sizes and record
  counts are integers. \<open>Math.ceil(a / b)\<close> for a positive divisor is the ceiling of the
  quotient.
\<close>

definition ceil_div :: "int \<Rightarrow> int \<Rightarrow> int" where
  "ceil_div a b = - ((- a) div b)"

record DataTablePagingInfo =
  currentFrom :: int
  currentTo :: int
  totalForDisplay :: int
  totalPages :: int
  currentPage :: int

text \<open>\<open>recordsFiltered || recordsTotal\<close>: the left operand unless it is 0.\<close>

definition getDataTablePaging :: "int \<Rightarrow> int \<Rightarrow> int \<Rightarrow> int \<Rightarrow> DataTablePagingInfo" where
  "getDataTablePaging pageIndex pageSize recordsTotal recordsFiltered =
     (let total = (if recordsFiltered \<noteq> 0 then recordsFiltered else recordsTotal);
          pages = (if pageSize > 0 then max 1 (ceil_div total pageSize) else 1);
          start = pageIndex * pageSize
      in \<lparr> currentFrom = (if total = 0 then 0 else start + 1),
           currentTo = min (start + pageSize) total,
           totalForDisplay = total,
           totalPages = pages,
           currentPage = pageIndex + 1 \<rparr>)"

text \<open>\<open>goToPage(page)\<close> hands \<open>next - 1\<close> to \<open>onPageIndexChange\<close>; the model returns that
  argument.\<close>

definition goToPage :: "DataTablePagingInfo \<Rightarrow> int \<Rightarrow> int" where
  "goToPage info page = min (max page 1) (totalPages info) - 1"

section \<open>Query builder\<close>

text \<open>
  \<open>URLSearchParams\<close> is an ordered list of name-value pairs. \<open>set(name, value)\<close>
  overwrites the first pair of that name and removes the others, or appends a new pair;
  \<open>get(name)\<close> reads the first pair of that name.
\<close>

type_synonym search_params = "(string \<times> string) list"

fun params_set :: "search_params \<Rightarrow> string \<Rightarrow> string \<Rightarrow> search_params" where
  "params_set [] k v = [(k, v)]"
| "params_set ((k', v') # ps) k v =
     (if k' = k then (k, v) # filter (\<lambda>p. fst p \<noteq> k) ps
      else (k', v') # params_set ps k v)"

definition params_get :: "search_params \<Rightarrow> string \<Rightarrow> string option" where
  "params_get ps k = map_of ps k"

text \<open>A value of an \<open>extraFilters\<close> entry: \<open>string | number | null | undefined\<close>.\<close>

datatype filter_value = FStr string | FNum int | FNull | FUndefined

text \<open>
  A plain object used as \<open>Record<string, _>\<close>: its own properties, as the pairs
  \<open>Object.entries\<close> lists, in that order.
\<close>

type_synonym 'v js_record = "(string \<times> 'v) list"

text \<open>\<open>String(n)\<close> for an integer: its decimal digits, with a leading minus sign.\<close>

fun digits :: "nat \<Rightarrow> string" where
  "digits n = (if n < 10 then [char_of (48 + n)]
               else digits (n div 10) @ [char_of (48 + n mod 10)])"

definition String_num :: "int \<Rightarrow> string" where
  "String_num i = (if i < 0 then CHR ''-'' # digits (nat (- i)) else digits (nat i))"

datatype sort_dir = Asc | Desc

fun sort_dir_str :: "sort_dir \<Rightarrow> string" where
  "sort_dir_str Asc = ''asc''"
| "sort_dir_str Desc = ''desc''"

record DataTablesQueryOptions =
  start :: int
  length_opt :: int
  search_opt :: "string option"
  sortColumn :: int
  sortDir :: sort_dir
  extraFilters :: "filter_value js_record option"

text \<open>One turn of the loop over \<open>Object.entries(extraFilters)\<close>: null and undefined
  values and values that are blank after trimming are skipped.\<close>

fun add_filter :: "search_params \<Rightarrow> string \<times> filter_value \<Rightarrow> search_params" where
  "add_filter ps (key, FNull) = ps"
| "add_filter ps (key, FUndefined) = ps"
| "add_filter ps (key, FStr s) = (if trim s = [] then ps else params_set ps key (trim s))"
| "add_filter ps (key, FNum n) =
     (if trim (String_num n) = [] then ps else params_set ps key (trim (String_num n)))"

definition buildDataTablesQueryParams :: "DataTablesQueryOptions \<Rightarrow> search_params" where
  "buildDataTablesQueryParams q =
     (let p1 = params_set [] ''draw'' ''1'';
          p2 = params_set p1 ''start'' (String_num (start q));
          p3 = params_set p2 ''length'' (String_num (length_opt q));
          p4 = (case search_opt q of
                  None \<Rightarrow> p3
                | Some s \<Rightarrow> if trim s = [] then p3 else params_set p3 ''search[value]'' (trim s));
          p5 = (case extraFilters q of
                  None \<Rightarrow> p4
                | Some ef \<Rightarrow> foldl add_filter p4 ef);
          p6 = params_set p5 ''order[0][column]'' (String_num (sortColumn q))
      in params_set p6 ''order[0][dir]'' (sort_dir_str (sortDir q)))"

text \<open>Reading the draw token of an emitted query as a number.\<close>

fun digit_val :: "char \<Rightarrow> nat option" where
  "digit_val c = (let n = (of_char c :: nat) in if 48 \<le> n \<and> n \<le> 57 then Some (n - 48) else None)"

fun parse_nat :: "nat \<Rightarrow> string \<Rightarrow> nat option" where
  "parse_nat acc [] = Some acc"
| "parse_nat acc (c # cs) =
     (case digit_val c of None \<Rightarrow> None | Some d \<Rightarrow> parse_nat (10 * acc + d) cs)"

definition draw_number :: "search_params \<Rightarrow> nat option" where
  "draw_number ps =
     (case params_get ps ''draw'' of
        None \<Rightarrow> None
      | Some s \<Rightarrow> if s = [] then None else parse_nat 0 s)"

definition draw_increases :: "search_params \<Rightarrow> search_params \<Rightarrow> bool" where
  "draw_increases a b =
     (case draw_number a of
        None \<Rightarrow> False
      | Some m \<Rightarrow> (case draw_number b of None \<Rightarrow> False | Some n \<Rightarrow> m < n))"

text \<open>The names of the entries of \<open>extraFilters\<close>.\<close>

definition filter_keys :: "DataTablesQueryOptions \<Rightarrow> string set" where
  "filter_keys q = (case extraFilters q of None \<Rightarrow> {} | Some ef \<Rightarrow> fst ` set ef)"

section \<open>Table filter state\<close>





text \<open>
  A column carries an optional header and an optional footer filter. The author supplies
  filter definitions; the table turns each into a filter configuration bound to the
  filter state. Fields that only serve rendering (placeholders, select options, header,
  cell renderer) are left out.
\<close>

record 'f column =
  column_id :: string
  filterConfigHeader :: "'f option"
  filterConfigFooter :: "'f option"


























section \<open>Session storage\<close>

text \<open>
  \<open>localStorage\<close> is a map from keys to strings; \<open>getItem\<close> of an absent key is null.
  Where \<open>window\<close> is undefined there is no store.
\<close>

type_synonym storage = "string \<rightharpoonup> string"

definition TOKEN_KEY :: string where
  "TOKEN_KEY = ''authToken''"

definition USER_KEY :: string where
  "USER_KEY = ''authUser''"

text \<open>\<open>token.split(".")\<close>: the pieces between the dots; never empty.\<close>

fun split_dot :: "string \<Rightarrow> string list" where
  "split_dot [] = [[]]"
| "split_dot (c # cs) =
     (if c = CHR ''.'' then [] # split_dot cs
      else (case split_dot cs of [] \<Rightarrow> [[c]] | p # ps \<Rightarrow> (c # p) # ps))"

text \<open>\<open>s.replace(/a/g, "b")\<close> for single characters.\<close>

definition replace_all :: "char \<Rightarrow> char \<Rightarrow> string \<Rightarrow> string" where
  "replace_all a b s = map (\<lambda>c. if c = a then b else c) s"

text \<open>
  \<open>atob\<close>, the platform's forgiving base64 decoder: ASCII white space is removed, one or
  two padding characters are dropped from an input whose length is a multiple of four, an
  input of length 1 modulo 4 or with a character outside the alphabet is an error
  (\<open>None\<close>: the call throws), and left-over bits are discarded.
\<close>

definition b64_alphabet :: string where
  "b64_alphabet = ''ABCDEFGHIJKLMNOPQRSTUVWXYZabcdefghijklmnopqrstuvwxyz0123456789+/''"

fun index_of :: "char \<Rightarrow> string \<Rightarrow> nat option" where
  "index_of c [] = None"
| "index_of c (x # xs) = (if c = x then Some 0 else map_option Suc (index_of c xs))"

definition ascii_ws :: "char \<Rightarrow> bool" where
  "ascii_ws c = (of_char c \<in> {9, 10, 12, 13, 32 :: nat})"

definition strip_padding :: "string \<Rightarrow> string" where
  "strip_padding d =
     (if length d mod 4 \<noteq> 0 \<or> d = [] then d
      else if last d \<noteq> CHR ''='' then d
      else if last (butlast d) = CHR ''='' then butlast (butlast d)
      else butlast d)"

fun sextets_to_bytes :: "nat list \<Rightarrow> nat list" where
  "sextets_to_bytes (a # b # c # d # rest) =
     (a * 4 + b div 16) # ((b mod 16) * 16 + c div 4) # ((c mod 4) * 64 + d)
       # sextets_to_bytes rest"
| "sextets_to_bytes [a, b, c] = [a * 4 + b div 16, (b mod 16) * 16 + c div 4]"
| "sextets_to_bytes [a, b] = [a * 4 + b div 16]"
| "sextets_to_bytes _ = []"

definition atob :: "string \<Rightarrow> string option" where
  "atob s =
     (let d = strip_padding (filter (\<lambda>c. \<not> ascii_ws c) s)
      in if length d mod 4 = 1 then None
         else (case those (map (\<lambda>c. index_of c b64_alphabet) d) of
                 None \<Rightarrow> None
               | Some vs \<Rightarrow> Some (map char_of (sextets_to_bytes vs))))"

text \<open>
  \<open>decodeJwtExp\<close>. \<open>JSON.parse\<close> and the test \<open>typeof payload.exp === "number"\<close> are the
  parameter \<open>json_exp\<close>: it gives the number when the text parses to a value whose
  \<open>exp\<close> is a number, and \<open>None\<close> otherwise (a parse error, a null payload, an absent or
  non-numeric \<open>exp\<close>). Every exception inside the \<open>try\<close> block ends in \<open>null\<close>. The
  expiry, in seconds, is an \<^typ>\<open>int\<close>.
\<close>

definition decodeJwtExp :: "(string \<Rightarrow> int option) \<Rightarrow> string \<Rightarrow> int option" where
  "decodeJwtExp json_exp token =
     (let parts = split_dot token
      in if length parts < 2 then None
         else (let payloadBase64 =
                     replace_all (CHR ''_'') (CHR ''/'') (replace_all (CHR ''-'') (CHR ''+'') (parts ! 1))
               in case atob payloadBase64 of
                    None \<Rightarrow> None
                  | Some payloadJson \<Rightarrow> json_exp payloadJson))"

text \<open>\<open>isTokenExpired\<close>; \<open>now\<close> is \<open>Date.now()\<close> in milliseconds. \<open>!exp\<close> holds for null
  and for the number 0.\<close>

definition isTokenExpired :: "(string \<Rightarrow> int option) \<Rightarrow> int \<Rightarrow> string \<Rightarrow> bool" where
  "isTokenExpired json_exp now token =
     (case decodeJwtExp json_exp token of
        None \<Rightarrow> False
      | Some exp \<Rightarrow> if exp = 0 then False else exp \<le> now div 1000)"

text \<open>\<open>loadAuthToken\<close> returns the store after the call and the token or null.\<close>

definition loadAuthToken :: "(string \<Rightarrow> int option) \<Rightarrow> int \<Rightarrow> storage option
    \<Rightarrow> storage option \<times> string option" where
  "loadAuthToken json_exp now window =
     (case window of
        None \<Rightarrow> (None, None)
      | Some localStorage \<Rightarrow>
          (case localStorage TOKEN_KEY of
             None \<Rightarrow> (Some localStorage, None)
           | Some token \<Rightarrow>
               if token = [] then (Some localStorage, None)
               else if isTokenExpired json_exp now token
               then (Some (localStorage(TOKEN_KEY := None, USER_KEY := None)), None)
               else (Some localStorage, Some token)))"

text \<open>A reader of the \<open>exp\<close> member that knows one payload text only.\<close>

definition exp_of_payload :: "string \<Rightarrow> int \<Rightarrow> string \<Rightarrow> int option" where
  "exp_of_payload payload n s = (if s = payload then Some n else None)"

section \<open>HTTP client: requests, responses and errors\<close>

text \<open>
  What a hook catches is either an \<open>ApiError\<close> with its status, status text and body
  text, or something else (a network failure, a \<open>TypeError\<close>).
\<close>

datatype api_error = ApiError int string "string option" | OtherError

record ApiErrorMessageOptions =
  defaultMessage :: string
  unauthorizedMessage :: "string option"
  badRequestMessage :: "string option"
  notFoundMessage :: "string option"
  rateLimitMessage :: "string option"
  serverErrorMessage :: "string option"

text \<open>The chain of \<open>if (cond && message) return message\<close>, ending in the default.\<close>

fun first_message :: "(bool \<times> string option) list \<Rightarrow> string \<Rightarrow> string" where
  "first_message [] d = d"
| "first_message ((c, None) # rest) d = first_message rest d"
| "first_message ((c, Some m) # rest) d = (if c \<and> m \<noteq> [] then m else first_message rest d)"

definition mapApiErrorToMessage :: "api_error \<Rightarrow> ApiErrorMessageOptions \<Rightarrow> string" where
  "mapApiErrorToMessage err options =
     (case err of
        OtherError \<Rightarrow> defaultMessage options
      | ApiError status statusText bodyText \<Rightarrow>
          first_message
            [(status = 400, badRequestMessage options),
             (status = 401, unauthorizedMessage options),
             (status = 404, notFoundMessage options),
             (status = 429, rateLimitMessage options),
             (status \<ge> 500, serverErrorMessage options)]
            (defaultMessage options))"

text \<open>
  A request as \<open>apiRequest\<close> sends it: the endpoint path, the query parameters and the
  \<open>Authorization\<close> header, which is present only for a truthy token.
\<close>

record request =
  req_path :: string
  req_params :: search_params
  req_authorization :: "string option"

text \<open>
  What \<open>fetch\<close> comes back with: a network failure, or a response with its status, status
  text, the body read as text (undefined when reading fails) and as JSON (undefined when
  parsing fails).
\<close>

datatype 'a fetch_outcome = NetworkFailure | HttpResponse int string "string option" "'a option"

datatype 'a api_result = Resolved "'a option" | Rejected api_error

text \<open>
  The part of \<open>apiRequest\<close> after \<open>await fetch\<close>. The second component tells whether the
  registered unauthorized handler is called: on status 401, for a truthy token, when a
  handler is registered.
\<close>

definition apiRequest_result :: "string option \<Rightarrow> bool \<Rightarrow> 'a fetch_outcome \<Rightarrow> 'a api_result \<times> bool" where
  "apiRequest_result token registered outcome =
     (case outcome of
        NetworkFailure \<Rightarrow> (Rejected OtherError, False)
      | HttpResponse status statusText bodyText json \<Rightarrow>
          if \<not> (200 \<le> status \<and> status \<le> 299)
          then (Rejected (ApiError status statusText bodyText),
                status = 401 \<and> truthy token \<and> registered)
          else if status = 204 then (Resolved None, False)
          else (Resolved json, False))"

section \<open>Server table data hook\<close>

record 'r fetch_state =
  data :: "'r list"
  loading :: bool
  error :: "string option"

record 'r table_state = "'r fetch_state" +
  recordsTotal :: int
  recordsFiltered :: int
  pageIndex :: int
  pageSize :: int

record 'r DataTablesApiResponse =
  resp_data :: "'r list option"
  resp_recordsTotal :: "int option"
  resp_recordsFiltered :: "int option"

record UseServerDataTableOptions =
  endpoint :: string
  token :: "string option"
  buildQueryOptions :: "int \<Rightarrow> int \<Rightarrow> DataTablesQueryOptions"
  mapErrorMessage :: "(api_error \<Rightarrow> string option) option"

text \<open>
  One run of the effect is an attempt: its \<open>AbortController\<close> (aborted or not), whether its
  request has settled, and the token and error mapper its closure captured.
\<close>

record table_attempt =
  aborted :: bool
  settled :: bool
  attempt_token :: "string option"
  mapper :: "(api_error \<Rightarrow> string option) option"

text \<open>
  The hook instance: the React state, the attempts in the order they were issued, the
  requests sent, and the attempt whose controller the pending cleanup function aborts.
\<close>

record 'r table_hook =
  state :: "'r table_state"
  attempts :: "table_attempt list"
  requests :: "request list"
  cleanup :: "nat option"

definition useServerDataTable_initial :: "int \<Rightarrow> 'r table_hook" where
  "useServerDataTable_initial pageSizeInitial =
     \<lparr> state = \<lparr> data = [], loading = False, error = None, recordsTotal = 0,
                 recordsFiltered = 0, pageIndex = 0, pageSize = pageSizeInitial \<rparr>,
       attempts = [], requests = [], cleanup = None \<rparr>"

text \<open>The cleanup function of the effect: \<open>controller.abort()\<close>.\<close>

definition table_cleanup :: "'r table_hook \<Rightarrow> 'r table_hook" where
  "table_cleanup w =
     (case cleanup w of
        None \<Rightarrow> w
      | Some i \<Rightarrow>
          w\<lparr> attempts := (attempts w)[i := (attempts w ! i)\<lparr> aborted := True \<rparr>],
             cleanup := None \<rparr>)"

text \<open>
  The effect body up to \<open>await\<close>: nothing without an endpoint; otherwise a new controller,
  \<open>setLoading(true)\<close>, \<open>setError(null)\<close>, and the request is sent.
\<close>

definition table_effect :: "UseServerDataTableOptions \<Rightarrow> 'r table_hook \<Rightarrow> 'r table_hook" where
  "table_effect options w =
     (if endpoint options = [] then w
      else w\<lparr> state := (state w)\<lparr> loading := True, error := None \<rparr>,
              attempts := attempts w @
                [\<lparr> aborted = False, settled = False, attempt_token = token options,
                   mapper = mapErrorMessage options \<rparr>],
              requests := requests w @
                [\<lparr> req_path = endpoint options,
                   req_params = buildDataTablesQueryParams
                     (buildQueryOptions options (pageIndex (state w)) (pageSize (state w))),
                   req_authorization = buildAuthHeader (token options) \<rparr>],
              cleanup := Some (length (attempts w)) \<rparr>)"

text \<open>A change of a dependency (and the mount): the pending cleanup, then the effect.\<close>

definition table_deps_changed :: "UseServerDataTableOptions \<Rightarrow> 'r table_hook \<Rightarrow> 'r table_hook" where
  "table_deps_changed options w = table_effect options (table_cleanup w)"

definition setPageIndex :: "UseServerDataTableOptions \<Rightarrow> int \<Rightarrow> 'r table_hook \<Rightarrow> 'r table_hook" where
  "setPageIndex options index w =
     (if index = pageIndex (state w) then w
      else table_deps_changed options (w\<lparr> state := (state w)\<lparr> pageIndex := index \<rparr> \<rparr>))"

text \<open>The message of the \<open>catch\<close> block of \<open>fetchData\<close>.\<close>

definition table_error_message :: "(api_error \<Rightarrow> string option) option \<Rightarrow> api_error \<Rightarrow> string option" where
  "table_error_message m err =
     (case m of
        Some mapErr \<Rightarrow> mapErr err
      | None \<Rightarrow>
          (case err of
             ApiError status statusText bodyText \<Rightarrow> Some ''Failed to load data from server.''
           | OtherError \<Rightarrow> Some ''An unexpected error occurred while loading data.''))"

definition table_failed :: "table_attempt \<Rightarrow> api_error \<Rightarrow> 'r table_state \<Rightarrow> 'r table_state" where
  "table_failed a err st = st\<lparr> error := table_error_message (mapper a) err, loading := False \<rparr>"

text \<open>
  The rest of \<open>fetchData\<close> once the request of attempt \<open>i\<close> settles: the three setters
  on success, the error message on failure (reading \<open>response.data\<close> of an undefined
  response throws a \<open>TypeError\<close> inside the \<open>try\<close> block), and \<open>setLoading(false)\<close> in
  either case. The controller of the attempt is not consulted.
\<close>

definition table_settle :: "bool \<Rightarrow> nat \<Rightarrow> 'r DataTablesApiResponse fetch_outcome
    \<Rightarrow> 'r table_hook \<Rightarrow> 'r table_hook" where
  "table_settle registered i outcome w =
     (if i \<ge> length (attempts w) \<or> settled (attempts w ! i) then w
      else
        (let a = attempts w ! i;
             w' = w\<lparr> attempts := (attempts w)[i := a\<lparr> settled := True \<rparr>] \<rparr>
         in case fst (apiRequest_result (attempt_token a) registered outcome) of
              Resolved (Some response) \<Rightarrow>
                w'\<lparr> state := (state w)
                      \<lparr> data := (case resp_data response of None \<Rightarrow> [] | Some rows \<Rightarrow> rows),
                        loading := False,
                        recordsTotal := (case resp_recordsTotal response of None \<Rightarrow> 0 | Some n \<Rightarrow> n),
                        recordsFiltered :=
                          (case resp_recordsFiltered response of None \<Rightarrow> 0 | Some n \<Rightarrow> n) \<rparr> \<rparr>
            | Resolved None \<Rightarrow> w'\<lparr> state := table_failed a OtherError (state w) \<rparr>
            | Rejected err \<Rightarrow> w'\<lparr> state := table_failed a err (state w) \<rparr>))"

text \<open>The error mapper \<open>ServerDataTable\<close> passes to the hook when its caller gives none.\<close>

definition defaultMapErrorMessage :: "api_error \<Rightarrow> string option" where
  "defaultMapErrorMessage err =
     (case err of
        ApiError status statusText bodyText \<Rightarrow>
          if status = 401 then Some ''Your session has expired. Please sign in again.''
          else Some ''Failed to load data from server.''
      | OtherError \<Rightarrow> Some ''An unexpected error occurred while loading data.'')"

text \<open>The query options \<open>ServerDataTable\<close> builds for a page.\<close>

definition serverDataTable_query :: "string \<Rightarrow> int \<Rightarrow> sort_dir \<Rightarrow> filter_value js_record
    \<Rightarrow> int \<Rightarrow> int \<Rightarrow> DataTablesQueryOptions" where
  "serverDataTable_query searchTerm col dir ef qPageIndex qPageSize =
     \<lparr> start = qPageIndex * qPageSize, length_opt = qPageSize, search_opt = Some searchTerm,
       sortColumn = col, sortDir = dir, extraFilters = Some ef \<rparr>"

section \<open>Reporting hooks\<close>

text \<open>
  The three reporting hooks share their guard, their start and their \<open>catch\<close> and
  \<open>finally\<close> blocks; they differ in the endpoint, the query and the messages. The dates of
  \<open>getRangeDates\<close> depend on the current day and are parameters. The top-transactions and
  top-users hooks store the rows of the response; the paging and date-bucket aggregation
  of the volume hook's success path is not part of the model.
\<close>

datatype TxTypeFilter = TxALL | TxDEBIT | TxCREDIT

datatype report_kind = TopTransactionsPerUser | TransactionsVolume TxTypeFilter | TopUsersLeaderboard

record 'r report_hook =
  rstate :: "'r fetch_state"
  cancelled :: "bool list"
  rrequests :: "request list"
  rcleanup :: "nat option"
  loadingCount :: nat

definition set_if_truthy :: "search_params \<Rightarrow> string \<Rightarrow> string option \<Rightarrow> search_params" where
  "set_if_truthy ps k v = (case v of None \<Rightarrow> ps | Some s \<Rightarrow> if s = [] then ps else params_set ps k s)"

fun type_filter_str :: "TxTypeFilter \<Rightarrow> string" where
  "type_filter_str TxALL = ''ALL''"
| "type_filter_str TxDEBIT = ''DEBIT''"
| "type_filter_str TxCREDIT = ''CREDIT''"

fun report_request :: "report_kind \<Rightarrow> string option \<Rightarrow> string option \<Rightarrow> string option \<Rightarrow> request" where
  "report_request TopTransactionsPerUser tok dateFrom dateTo =
     \<lparr> req_path = ''/top_transactions_per_user'',
       req_params = set_if_truthy (set_if_truthy [] ''dateFrom'' dateFrom) ''dateTo'' dateTo,
       req_authorization = buildAuthHeader tok \<rparr>"
| "report_request TopUsersLeaderboard tok dateFrom dateTo =
     \<lparr> req_path = ''/top_users'',
       req_params = set_if_truthy (set_if_truthy [] ''dateFrom'' dateFrom) ''dateTo'' dateTo,
       req_authorization = buildAuthHeader tok \<rparr>"
| "report_request (TransactionsVolume typeFilter) tok dateFrom dateTo =
     \<lparr> req_path = ''/transactions'',
       req_params =
         (let p1 = params_set [] ''draw'' ''1'';
              p2 = params_set p1 ''length'' ''100'';
              p3 = params_set p2 ''order[0][column]'' ''0'';
              p4 = params_set p3 ''order[0][dir]'' ''asc'';
              p5 = set_if_truthy (set_if_truthy p4 ''dateFrom'' dateFrom) ''dateTo'' dateTo;
              p6 = (if typeFilter \<noteq> TxALL then params_set p5 ''type'' (type_filter_str typeFilter)
                    else p5)
          in params_set p6 ''start'' ''0''),
       req_authorization = buildAuthHeader tok \<rparr>"

fun report_messages :: "report_kind \<Rightarrow> ApiErrorMessageOptions" where
  "report_messages TopTransactionsPerUser =
     \<lparr> defaultMessage = ''Failed to load top transactions.'',
       unauthorizedMessage = None, badRequestMessage = None, notFoundMessage = None,
       rateLimitMessage = Some ''Too many requests while loading top transactions. Please wait a moment and try again.'',
       serverErrorMessage = Some ''Server error while loading top transactions. Please try again later.'' \<rparr>"
| "report_messages (TransactionsVolume typeFilter) =
     \<lparr> defaultMessage = ''Failed to load transactions volume.'',
       unauthorizedMessage = None, badRequestMessage = None, notFoundMessage = None,
       rateLimitMessage = Some ''Too many requests while loading transactions volume. Please wait a moment and try again.'',
       serverErrorMessage = Some ''Server error while loading transactions volume. Please try again later.'' \<rparr>"
| "report_messages TopUsersLeaderboard =
     \<lparr> defaultMessage = ''Failed to load top users.'',
       unauthorizedMessage = None, badRequestMessage = None, notFoundMessage = None,
       rateLimitMessage = Some ''Too many requests while loading top users. Please wait a moment and try again.'',
       serverErrorMessage = Some ''Server error while loading top users. Please try again later.'' \<rparr>"

definition report_initial :: "'r report_hook" where
  "report_initial =
     \<lparr> rstate = \<lparr> data = [], loading = False, error = None \<rparr>,
       cancelled = [], rrequests = [], rcleanup = None, loadingCount = 0 \<rparr>"

text \<open>The cleanup function of a reporting effect: \<open>cancelled = true\<close>.\<close>

definition report_cleanup :: "'r report_hook \<Rightarrow> 'r report_hook" where
  "report_cleanup w =
     (case rcleanup w of
        None \<Rightarrow> w
      | Some i \<Rightarrow> w\<lparr> cancelled := (cancelled w)[i := True], rcleanup := None \<rparr>)"

text \<open>
  The effect body up to the first \<open>await\<close>. Without a token the state is emptied and the
  effect returns; otherwise \<open>startLoading()\<close>, \<open>setLoading(true)\<close>, \<open>setError(null)\<close> and
  the request is sent.
\<close>

definition report_effect :: "report_kind \<Rightarrow> string option \<Rightarrow> string option \<Rightarrow> string option
    \<Rightarrow> 'r report_hook \<Rightarrow> 'r report_hook" where
  "report_effect kind tok dateFrom dateTo w =
     (if \<not> truthy tok
      then w\<lparr> rstate := (rstate w)\<lparr> data := [], loading := False, error := None \<rparr> \<rparr>
      else w\<lparr> rstate := (rstate w)\<lparr> loading := True, error := None \<rparr>,
              cancelled := cancelled w @ [False],
              rrequests := rrequests w @ [report_request kind tok dateFrom dateTo],
              rcleanup := Some (length (cancelled w)),
              loadingCount := loadingCount w + 1 \<rparr>)"

definition report_deps_changed :: "report_kind \<Rightarrow> string option \<Rightarrow> string option \<Rightarrow> string option
    \<Rightarrow> 'r report_hook \<Rightarrow> 'r report_hook" where
  "report_deps_changed kind tok dateFrom dateTo w =
     report_effect kind tok dateFrom dateTo (report_cleanup w)"

text \<open>\<open>stopLoading()\<close>\<close>

definition stopLoading :: "'r report_hook \<Rightarrow> 'r report_hook" where
  "stopLoading w = w\<lparr> loadingCount := (if loadingCount w > 0 then loadingCount w - 1 else 0) \<rparr>"

text \<open>
  The \<open>catch\<close> and \<open>finally\<close> blocks for attempt \<open>i\<close>: a cancelled attempt and a 401 set
  no error; \<open>setLoading(false)\<close> is skipped for a cancelled attempt.
\<close>

definition report_failed :: "report_kind \<Rightarrow> nat \<Rightarrow> api_error \<Rightarrow> 'r report_hook \<Rightarrow> 'r report_hook" where
  "report_failed kind i err w =
     (if i \<ge> length (cancelled w) then w
      else if cancelled w ! i then stopLoading w
      else
        (case err of
           ApiError status statusText bodyText \<Rightarrow>
             if status = 401
             then stopLoading (w\<lparr> rstate := (rstate w)\<lparr> loading := False \<rparr> \<rparr>)
             else stopLoading (w\<lparr> rstate := (rstate w)
                    \<lparr> loading := False,
                      error := Some (mapApiErrorToMessage err (report_messages kind)) \<rparr> \<rparr>)
         | OtherError \<Rightarrow>
             stopLoading (w\<lparr> rstate := (rstate w)
               \<lparr> loading := False,
                 error := Some (mapApiErrorToMessage err (report_messages kind)) \<rparr> \<rparr>)))"

text \<open>The success path of the top-transactions and top-users hooks:
  \<open>setData(Array.isArray(response) ? response : [])\<close> unless cancelled.\<close>

definition report_resolved :: "nat \<Rightarrow> 'r list option \<Rightarrow> 'r report_hook \<Rightarrow> 'r report_hook" where
  "report_resolved i response w =
     (if i \<ge> length (cancelled w) then w
      else if cancelled w ! i then stopLoading w
      else stopLoading (w\<lparr> rstate := (rstate w)
             \<lparr> data := (case response of None \<Rightarrow> [] | Some rows \<Rightarrow> rows), loading := False \<rparr> \<rparr>))"

section \<open>Debounced search controller\<close>

text \<open>
  A timer of \<open>window.setTimeout\<close>: its id, the time it is due and the value its callback
  commits.
\<close>

record timer =
  timer_id :: nat
  due :: nat
  commit_value :: string

text \<open>
  The hook instance: the two React states, the pending timers, the next timer id, the id
  the cleanup function of the current effect clears, the calls of \<open>onCommit\<close> in order,
  and the time in milliseconds. \<open>minLength\<close> and \<open>delayMs\<close> stay the same for the life
  of the hook. The effect runs when \<open>pendingSearch\<close> changes, and also after a render
  that hands the hook a new \<open>onCommit\<close> function. A handler, the render it causes and the
  effects of that render are one step.
\<close>

record debounce_state =
  search :: string
  pendingSearch :: string
  timers :: "timer list"
  nextTimeoutId :: nat
  timeoutId :: "nat option"
  commits :: "string list"
  clock :: nat

text \<open>The cleanup function of the effect: \<open>window.clearTimeout(timeoutId)\<close>.\<close>

definition debounce_cleanup :: "debounce_state \<Rightarrow> debounce_state" where
  "debounce_cleanup st =
     (case timeoutId st of
        None \<Rightarrow> st
      | Some i \<Rightarrow> st\<lparr> timers := filter (\<lambda>t. timer_id t \<noteq> i) (timers st), timeoutId := None \<rparr>)"

text \<open>The effect body: commit now, or set a timer that commits.\<close>

definition debounce_effect :: "int \<Rightarrow> nat \<Rightarrow> debounce_state \<Rightarrow> debounce_state" where
  "debounce_effect minLength delayMs st =
     (let trimmed = trim (pendingSearch st)
      in if int (length trimmed) \<ge> minLength \<or> length trimmed = 0
         then st\<lparr> search := trimmed, commits := commits st @ [trimmed] \<rparr>
         else st\<lparr> timers := timers st @
                     [\<lparr> timer_id = nextTimeoutId st, due = clock st + delayMs,
                        commit_value = trimmed \<rparr>],
                  nextTimeoutId := nextTimeoutId st + 1,
                  timeoutId := Some (nextTimeoutId st) \<rparr>)"

definition useDebouncedSearch_mount :: "int \<Rightarrow> nat \<Rightarrow> string \<Rightarrow> debounce_state" where
  "useDebouncedSearch_mount minLength delayMs initialValue =
     debounce_effect minLength delayMs
       \<lparr> search = initialValue, pendingSearch = initialValue, timers = [], nextTimeoutId = 1,
         timeoutId = None, commits = [], clock = 0 \<rparr>"

text \<open>A dependency of the effect changed: the pending cleanup, then the effect.\<close>

definition debounce_deps_changed :: "int \<Rightarrow> nat \<Rightarrow> debounce_state \<Rightarrow> debounce_state" where
  "debounce_deps_changed minLength delayMs st =
     debounce_effect minLength delayMs (debounce_cleanup st)"

text \<open>Setting the state to the value it has does not render again.\<close>

definition setPendingSearch :: "int \<Rightarrow> nat \<Rightarrow> string \<Rightarrow> debounce_state \<Rightarrow> debounce_state" where
  "setPendingSearch minLength delayMs v st =
     (if v = pendingSearch st then st
      else debounce_deps_changed minLength delayMs (st\<lparr> pendingSearch := v \<rparr>))"

text \<open>\<open>reset\<close>: \<open>setSearch("")\<close>, \<open>setPendingSearch("")\<close>, \<open>onCommit("")\<close>; the effect follows
  when \<open>pendingSearch\<close> was not empty.\<close>

definition reset :: "int \<Rightarrow> nat \<Rightarrow> debounce_state \<Rightarrow> debounce_state" where
  "reset minLength delayMs st =
     setPendingSearch minLength delayMs [] (st\<lparr> search := [], commits := commits st @ [[]] \<rparr>)"

text \<open>The timer callback: \<open>setSearch(trimmed)\<close>, \<open>onCommit(trimmed)\<close>.\<close>

definition fire :: "debounce_state \<Rightarrow> timer \<Rightarrow> debounce_state" where
  "fire st t = st\<lparr> search := commit_value t, commits := commits st @ [commit_value t] \<rparr>"

text \<open>Time passes: the timers that are due run, in the order they were set.\<close>

definition advance :: "nat \<Rightarrow> debounce_state \<Rightarrow> debounce_state" where
  "advance d st =
     (let now = clock st + d
      in (foldl fire st (filter (\<lambda>t. due t \<le> now) (timers st)))
           \<lparr> timers := filter (\<lambda>t. \<not> due t \<le> now) (timers st), clock := now \<rparr>)"

text \<open>What can happen to the hook: the user types, the table resets its filters, time
  passes, or the component renders again with a new \<open>onCommit\<close> function.\<close>

datatype debounce_event = SetPending string | Reset | Advance nat | NewOnCommit

fun debounce_step :: "int \<Rightarrow> nat \<Rightarrow> debounce_state \<Rightarrow> debounce_event \<Rightarrow> debounce_state" where
  "debounce_step minLength delayMs st (SetPending v) = setPendingSearch minLength delayMs v st"
| "debounce_step minLength delayMs st Reset = reset minLength delayMs st"
| "debounce_step minLength delayMs st (Advance d) = advance d st"
| "debounce_step minLength delayMs st NewOnCommit = debounce_deps_changed minLength delayMs st"

definition debounce_run :: "int \<Rightarrow> nat \<Rightarrow> string \<Rightarrow> debounce_event list \<Rightarrow> debounce_state" where
  "debounce_run minLength delayMs initialValue events =
     foldl (debounce_step minLength delayMs) (useDebouncedSearch_mount minLength delayMs initialValue) events"

text \<open>At most one timer is pending; it belongs to the current effect and carries the
  trimmed pending search, which is not empty.\<close>

definition one_pending :: "debounce_state \<Rightarrow> bool" where
  "one_pending st =
     (case timers st of
        [] \<Rightarrow> True
      | [t] \<Rightarrow> timeoutId st = Some (timer_id t) \<and> commit_value t = trim (pendingSearch st)
               \<and> commit_value t \<noteq> []
      | _ \<Rightarrow> False)"


section \<open>The transactions table\<close>

text \<open>
  The options \<open>ServerDataTable\<close> hands to the hook for \<open>TransactionsTable\<close> before the
  user has searched, sorted or filtered: the transactions endpoint, sort column 0
  descending, and the default error mapper.
\<close>

definition transactions_options :: "string option \<Rightarrow> UseServerDataTableOptions" where
  "transactions_options tok =
     \<lparr> endpoint = ''/transactions'', token = tok,
       buildQueryOptions = serverDataTable_query [] 0 Desc [],
       mapErrorMessage = Some defaultMapErrorMessage \<rparr>"

text \<open>A response page with its rows and the two counts.\<close>

definition page_response :: "'r list \<Rightarrow> int \<Rightarrow> 'r DataTablesApiResponse fetch_outcome" where
  "page_response rows n =
     HttpResponse 200 ''OK'' None
       (Some \<lparr> resp_data = Some rows, resp_recordsTotal = Some n, resp_recordsFiltered = Some n \<rparr>)"

section \<open>Properties of the authorization header\<close>

lemma buildAuthHeader_prefixed:
  "t \<noteq> [] \<Longrightarrow> \<exists>h. buildAuthHeader (Some t) = Some h \<and> prefix ''Bearer '' h"
  by (simp add: buildAuthHeader_def)

lemma buildAuthHeader_fixpoint:
  "prefix ''Bearer '' h \<Longrightarrow> buildAuthHeader (Some h) = Some h"
  by (auto simp: buildAuthHeader_def)

text \<open>
  Claim C10. For every non-empty token the header starts with \<open>Bearer \<close> and building a
  header from that header returns it unchanged; a null or empty token gives no header.
\<close>

theorem buildAuthHeader_idempotent:
  "(t \<noteq> [] \<longrightarrow>
      (\<exists>h. buildAuthHeader (Some t) = Some h \<and> prefix ''Bearer '' h
           \<and> buildAuthHeader (buildAuthHeader (Some t)) = buildAuthHeader (Some t)))
   \<and> buildAuthHeader None = None \<and> buildAuthHeader (Some []) = None"
proof (intro conjI impI)
  assume ne: "t \<noteq> []"
  from buildAuthHeader_prefixed [OF ne] obtain h
    where h: "buildAuthHeader (Some t) = Some h" and p: "prefix ''Bearer '' h" by blast
  from buildAuthHeader_fixpoint [OF p] h p
  show "\<exists>h. buildAuthHeader (Some t) = Some h \<and> prefix ''Bearer '' h
           \<and> buildAuthHeader (buildAuthHeader (Some t)) = buildAuthHeader (Some t)"
    by simp
next
  show "buildAuthHeader None = None" by (simp add: buildAuthHeader_def)
next
  show "buildAuthHeader (Some []) = None" by (simp add: buildAuthHeader_def)
qed

theorem buildAuthHeader_idempotent_witness:
  "''abc'' \<noteq> [] \<and> buildAuthHeader (Some ''abc'') = Some ''Bearer abc''
   \<and> buildAuthHeader (buildAuthHeader (Some ''abc'')) = Some ''Bearer abc''"
  using buildAuthHeader_idempotent [of "''abc''"]
  by (simp add: buildAuthHeader_def)

section \<open>Properties of the paging calculator\<close>

text \<open>
  Claim C2, as stated, fails: on the second page of ten rows of a five-row result the
  range starts at 11 and ends at 5.
\<close>

theorem getDataTablePaging_from_le_to_counterexample:
  "(0::int) \<le> 1 \<and> (0::int) < 10
   \<and> 0 < totalForDisplay (getDataTablePaging 1 10 5 0)
   \<and> \<not> currentFrom (getDataTablePaging 1 10 5 0) \<le> currentTo (getDataTablePaging 1 10 5 0)"
  by (simp add: getDataTablePaging_def Let_def)

text \<open>
  Claim C2, amended. For a non-negative page index, a positive page size and a non-empty
  result, \<open>currentFrom \<le> currentTo\<close> holds exactly when the page starts inside the
  result, that is when \<open>pageIndex * pageSize < totalForDisplay\<close>.
\<close>

theorem getDataTablePaging_from_le_to:
  assumes "0 \<le> idx" and "0 < psize"
    and "0 < totalForDisplay (getDataTablePaging idx psize rtotal rfiltered)"
  shows "currentFrom (getDataTablePaging idx psize rtotal rfiltered)
           \<le> currentTo (getDataTablePaging idx psize rtotal rfiltered)
         \<longleftrightarrow> idx * psize < totalForDisplay (getDataTablePaging idx psize rtotal rfiltered)"
  using assms by (auto simp: getDataTablePaging_def Let_def split: if_splits)

theorem getDataTablePaging_from_le_to_witness:
  "(0::int) \<le> 0 \<and> (0::int) < 10
   \<and> 0 < totalForDisplay (getDataTablePaging 0 10 57 0)
   \<and> (0::int) * 10 < totalForDisplay (getDataTablePaging 0 10 57 0)
   \<and> currentFrom (getDataTablePaging 0 10 57 0) \<le> currentTo (getDataTablePaging 0 10 57 0)"
  using getDataTablePaging_from_le_to [of 0 10 57 0]
  by (simp add: getDataTablePaging_def Let_def)

section \<open>Properties of the query builder\<close>

lemma map_of_filter_other:
  "k' \<noteq> k \<Longrightarrow> map_of (filter (\<lambda>p. fst p \<noteq> k) ps) k' = map_of ps k'"
  by (induction ps) auto

lemma params_get_set:
  "params_get (params_set ps k v) k' = (if k' = k then Some v else params_get ps k')"
  by (induction ps) (auto simp: params_get_def map_of_filter_other)

lemma params_get_add_filter:
  "k \<noteq> fst e \<Longrightarrow> params_get (add_filter ps e) k = params_get ps k"
  by (cases e; cases "snd e") (auto simp: params_get_set)

lemma params_get_foldl_add_filter:
  "k \<notin> fst ` set ef \<Longrightarrow> params_get (foldl add_filter ps ef) k = params_get ps k"
  by (induction ef arbitrary: ps) (auto simp: params_get_add_filter)

text \<open>
  Claim C3, as stated, fails: the queries for the first and for the second page both
  carry the draw token 1, so the token does not increase from one call to the next.
\<close>

theorem buildDataTablesQueryParams_draw_counterexample:
  "draw_number (buildDataTablesQueryParams
      \<lparr>start = 0, length_opt = 10, search_opt = None, sortColumn = 0, sortDir = Desc,
       extraFilters = Some []\<rparr>) = Some 1
   \<and> draw_number (buildDataTablesQueryParams
      \<lparr>start = 10, length_opt = 10, search_opt = None, sortColumn = 0, sortDir = Desc,
       extraFilters = Some []\<rparr>) = Some 1
   \<and> \<not> draw_increases
        (buildDataTablesQueryParams
          \<lparr>start = 0, length_opt = 10, search_opt = None, sortColumn = 0, sortDir = Desc,
           extraFilters = Some []\<rparr>)
        (buildDataTablesQueryParams
          \<lparr>start = 10, length_opt = 10, search_opt = None, sortColumn = 0, sortDir = Desc,
           extraFilters = Some []\<rparr>)"
  by (simp add: buildDataTablesQueryParams_def draw_increases_def draw_number_def
      params_get_def)

text \<open>
  Claim C3, amended. The query builder keeps no counter: every emitted query carries the
  constant draw token \<open>1\<close>, whatever the page, sort, search and filters are, as long as
  no extra filter is itself named \<open>draw\<close>.
\<close>

theorem buildDataTablesQueryParams_draw_constant:
  assumes "''draw'' \<notin> filter_keys q"
  shows "params_get (buildDataTablesQueryParams q) ''draw'' = Some ''1''"
  using assms
  by (auto simp: buildDataTablesQueryParams_def Let_def params_get_set filter_keys_def
      params_get_foldl_add_filter simp del: params_set.simps split: option.splits)

theorem buildDataTablesQueryParams_draw_constant_witness:
  "''draw'' \<notin> filter_keys
      \<lparr>start = 20, length_opt = 10, search_opt = Some ''bob'', sortColumn = 2, sortDir = Asc,
       extraFilters = Some [(''type'', FStr ''DEBIT'')]\<rparr>
   \<and> params_get (buildDataTablesQueryParams
        \<lparr>start = 20, length_opt = 10, search_opt = Some ''bob'', sortColumn = 2, sortDir = Asc,
         extraFilters = Some [(''type'', FStr ''DEBIT'')]\<rparr>) ''draw'' = Some ''1''"
  using buildDataTablesQueryParams_draw_constant
    [of "\<lparr>start = 20, length_opt = 10, search_opt = Some ''bob'', sortColumn = 2, sortDir = Asc,
          extraFilters = Some [(''type'', FStr ''DEBIT'')]\<rparr>"]
  by (simp add: filter_keys_def)

section \<open>Properties of the filter state\<close>




























section \<open>Properties of the session storage\<close>

text \<open>
  Claim C8, as stated, fails: a stored token without a dot has no decodable expiry, and
  \<open>loadAuthToken\<close> returns it.
\<close>

theorem loadAuthToken_undecodable_counterexample:
  "decodeJwtExp (exp_of_payload [] 0) ''not-a-jwt'' = None
   \<and> loadAuthToken (exp_of_payload [] 0) 1700000000000 (Some [TOKEN_KEY \<mapsto> ''not-a-jwt''])
       = (Some [TOKEN_KEY \<mapsto> ''not-a-jwt''], Some ''not-a-jwt'')"
  by (simp add: loadAuthToken_def isTokenExpired_def decodeJwtExp_def)

text \<open>
  Claim C8, amended. A stored, non-empty token whose expiry claim cannot be decoded is
  treated as not expired, not as an error: \<open>loadAuthToken\<close> returns it unchanged and
  leaves the store as it is.
\<close>

theorem loadAuthToken_undecodable_kept:
  assumes "ls TOKEN_KEY = Some tok" and "tok \<noteq> []" and "decodeJwtExp json_exp tok = None"
  shows "loadAuthToken json_exp now (Some ls) = (Some ls, Some tok)"
  using assms by (simp add: loadAuthToken_def isTokenExpired_def)

theorem loadAuthToken_undecodable_kept_witness:
  "[TOKEN_KEY \<mapsto> ''a.b.c''] TOKEN_KEY = Some ''a.b.c'' \<and> ''a.b.c'' \<noteq> []
   \<and> decodeJwtExp (exp_of_payload [] 0) ''a.b.c'' = None
   \<and> loadAuthToken (exp_of_payload [] 0) 1700000000000 (Some [TOKEN_KEY \<mapsto> ''a.b.c''])
       = (Some [TOKEN_KEY \<mapsto> ''a.b.c''], Some ''a.b.c'')"
proof -
  have d: "decodeJwtExp (exp_of_payload [] 0) ''a.b.c'' = None"
    by (simp add: decodeJwtExp_def replace_all_def atob_def strip_padding_def ascii_ws_def)
  from loadAuthToken_undecodable_kept [of "[TOKEN_KEY \<mapsto> ''a.b.c'']" "''a.b.c''", OF _ _ d] d
  show ?thesis by simp
qed

text \<open>A token whose expiry decodes to a number other than 0 that is not after the
  current time is dropped, together with the stored user.\<close>

lemma loadAuthToken_expired_removed:
  assumes "ls TOKEN_KEY = Some tok" and "tok \<noteq> []"
    and "decodeJwtExp json_exp tok = Some e" and "e \<noteq> 0" and "e \<le> now div 1000"
  shows "loadAuthToken json_exp now (Some ls)
          = (Some (ls(TOKEN_KEY := None, USER_KEY := None)), None)"
  using assms by (simp add: loadAuthToken_def isTokenExpired_def)

text \<open>
  Claim C9 says that a stored token whose decoded expiry is at or before the current time
  is never returned and that the token and the user are removed from the store. At the
  token whose payload is \<open>{"exp":0}\<close> the hook does otherwise: the expiry decodes to 0,
  which is before the current time, and \<open>loadAuthToken\<close> returns the token and keeps both
  entries of the store, because \<open>!exp\<close> holds for 0.
\<close>

theorem loadAuthToken_zero_expiry_returned:
  "decodeJwtExp (exp_of_payload (''{'' @ [CHR 0x22] @ ''exp'' @ [CHR 0x22] @ '':0}'') 0)
      ''eyJhbGciOiJub25lIn0.eyJleHAiOjB9.'' = Some 0
   \<and> (0::int) \<le> 1700000000000 div 1000
   \<and> loadAuthToken (exp_of_payload (''{'' @ [CHR 0x22] @ ''exp'' @ [CHR 0x22] @ '':0}'') 0)
        1700000000000
        (Some [TOKEN_KEY \<mapsto> ''eyJhbGciOiJub25lIn0.eyJleHAiOjB9.'', USER_KEY \<mapsto> ''{}''])
       = (Some [TOKEN_KEY \<mapsto> ''eyJhbGciOiJub25lIn0.eyJleHAiOjB9.'', USER_KEY \<mapsto> ''{}''],
          Some ''eyJhbGciOiJub25lIn0.eyJleHAiOjB9.'')"
proof -
  have a: "atob ''eyJleHAiOjB9'' = Some (''{'' @ [CHR 0x22] @ ''exp'' @ [CHR 0x22] @ '':0}'')"
    by code_simp
  have d: "decodeJwtExp (exp_of_payload (''{'' @ [CHR 0x22] @ ''exp'' @ [CHR 0x22] @ '':0}'') 0)
      ''eyJhbGciOiJub25lIn0.eyJleHAiOjB9.'' = Some 0"
    by (simp add: decodeJwtExp_def replace_all_def a exp_of_payload_def)
  from d show ?thesis
    by (simp add: loadAuthToken_def isTokenExpired_def TOKEN_KEY_def USER_KEY_def)
qed

section \<open>Properties of the data hooks\<close>

lemma table_cleanup_keeps:
  "requests (table_cleanup h) = requests h" "state (table_cleanup h) = state h"
  "length (attempts (table_cleanup h)) = length (attempts h)"
  by (auto simp: table_cleanup_def split: option.splits)

lemma report_cleanup_keeps:
  "rrequests (report_cleanup w) = rrequests w" "rstate (report_cleanup w) = rstate w"
  "length (cancelled (report_cleanup w)) = length (cancelled w)"
  by (auto simp: report_cleanup_def split: option.splits)

lemma falsy_buildAuthHeader: "\<not> truthy tok \<Longrightarrow> buildAuthHeader tok = None"
  by (cases tok) (auto simp: buildAuthHeader_def)

lemma String_num_samples: "String_num 0 = ''0''" "String_num 2 = ''2''" "String_num 10 = ''10''"
  by code_simp+

lemma attempts_deps_changed:
  "endpoint options \<noteq> [] \<Longrightarrow>
   attempts (table_deps_changed options h) ! length (attempts h)
     = \<lparr> aborted = False, settled = False, attempt_token = token options,
         mapper = mapErrorMessage options \<rparr>
   \<and> length (attempts (table_deps_changed options h)) = Suc (length (attempts h))"
  by (simp add: table_deps_changed_def table_effect_def table_cleanup_keeps nth_append)

lemma table_settle_401:
  assumes "i < length (attempts h)" and "\<not> settled (attempts h ! i)"
  shows "error (state (table_settle reg i (HttpResponse 401 t b j) h))
           = table_error_message (mapper (attempts h ! i)) (ApiError 401 t b)"
  using assms
  by (simp add: table_settle_def apiRequest_result_def table_failed_def Let_def)

text \<open>The reporting hooks drop the result of a cancelled attempt.\<close>

lemma report_resolved_cancelled:
  "i < length (cancelled w) \<Longrightarrow> cancelled w ! i \<Longrightarrow>
   rstate (report_resolved i response w) = rstate w"
  by (simp add: report_resolved_def stopLoading_def)

text \<open>
  Claim C1 says that of two fetch attempts issued in succession only the later one may
  commit its result. On the transactions table the hook does otherwise: the first page is
  requested, the page index moves to 1 and the second page is requested, which aborts
  the controller of the first attempt. The second response arrives and is stored, then
  the first arrives and is stored as well: the rows of the superseded attempt end up in
  the state while the page index is 1.
\<close>

theorem useServerDataTable_stale_response_applied:
  "aborted (attempts
      (setPageIndex (transactions_options (Some ''abc'')) 1
        (table_deps_changed (transactions_options (Some ''abc''))
          (useServerDataTable_initial 2 :: nat table_hook))) ! 0)
   \<and> data (state
        (table_settle True 1 (page_response [3] 3)
          (setPageIndex (transactions_options (Some ''abc'')) 1
            (table_deps_changed (transactions_options (Some ''abc''))
              (useServerDataTable_initial 2 :: nat table_hook))))) = [3]
   \<and> data (state
        (table_settle True 0 (page_response [1, 2] 3)
          (table_settle True 1 (page_response [3] 3)
            (setPageIndex (transactions_options (Some ''abc'')) 1
              (table_deps_changed (transactions_options (Some ''abc''))
                (useServerDataTable_initial 2 :: nat table_hook)))))) = [1, 2]
   \<and> pageIndex (state
        (table_settle True 0 (page_response [1, 2] 3)
          (table_settle True 1 (page_response [3] 3)
            (setPageIndex (transactions_options (Some ''abc'')) 1
              (table_deps_changed (transactions_options (Some ''abc''))
                (useServerDataTable_initial 2 :: nat table_hook)))))) = 1"
  by (simp add: table_settle_def setPageIndex_def table_deps_changed_def table_effect_def
      table_cleanup_def useServerDataTable_initial_def apiRequest_result_def Let_def
      transactions_options_def page_response_def)

text \<open>
  Claim C5, as stated, fails for the server table hook: without a token the transactions
  table still sends its request, with no \<open>Authorization\<close> header.
\<close>

theorem useServerDataTable_no_token_counterexample:
  "\<not> truthy (token (transactions_options None))
   \<and> requests (table_deps_changed (transactions_options None)
        (useServerDataTable_initial 10 :: nat table_hook))
     = [\<lparr> req_path = ''/transactions'',
          req_params = [(''draw'', ''1''), (''start'', ''0''), (''length'', ''10''),
                        (''order[0][column]'', ''0''), (''order[0][dir]'', ''desc'')],
          req_authorization = None \<rparr>]"
  by (simp add: table_deps_changed_def table_effect_def table_cleanup_def
      useServerDataTable_initial_def serverDataTable_query_def buildDataTablesQueryParams_def
      buildAuthHeader_def trim_def String_num_samples transactions_options_def)

text \<open>
  Claim C5, amended. Every reporting hook, when no token is present, sends no request and
  empties its state (no rows, no error, not loading). The server table hook is gated on
  its endpoint, not on the token: with an empty endpoint it sends nothing and keeps its
  state; with an endpoint and no token it sends the request without an \<open>Authorization\<close>
  header and enters the loading state.
\<close>

theorem fetch_without_token:
  "(\<not> truthy tok \<longrightarrow>
      rrequests (report_deps_changed kind tok dateFrom dateTo w) = rrequests w
      \<and> data (rstate (report_deps_changed kind tok dateFrom dateTo w)) = []
      \<and> error (rstate (report_deps_changed kind tok dateFrom dateTo w)) = None
      \<and> \<not> loading (rstate (report_deps_changed kind tok dateFrom dateTo w)))
   \<and> (endpoint options0 = [] \<longrightarrow>
      requests (table_deps_changed options0 h) = requests h
      \<and> state (table_deps_changed options0 h) = state h)
   \<and> (endpoint options \<noteq> [] \<and> \<not> truthy (token options) \<longrightarrow>
      (\<exists>req. requests (table_deps_changed options h) = requests h @ [req]
            \<and> req_path req = endpoint options \<and> req_authorization req = None)
      \<and> loading (state (table_deps_changed options h)))"
  by (simp add: report_deps_changed_def report_effect_def report_cleanup_keeps
      table_deps_changed_def table_effect_def table_cleanup_keeps falsy_buildAuthHeader)

theorem fetch_without_token_witness:
  "\<not> truthy None
   \<and> rrequests (report_deps_changed TopTransactionsPerUser None None None
        (report_initial :: nat report_hook)) = []
   \<and> endpoint ((transactions_options None)\<lparr> endpoint := [] \<rparr>) = []
   \<and> requests (table_deps_changed ((transactions_options None)\<lparr> endpoint := [] \<rparr>)
        (useServerDataTable_initial 10 :: nat table_hook)) = []
   \<and> endpoint (transactions_options None) \<noteq> []
   \<and> \<not> truthy (token (transactions_options None))
   \<and> loading (state (table_deps_changed (transactions_options None)
        (useServerDataTable_initial 10 :: nat table_hook)))"
  using fetch_without_token [where tok = None and kind = TopTransactionsPerUser
      and dateFrom = None and dateTo = None and w = "report_initial :: nat report_hook"
      and ?options0.0 = "(transactions_options None)\<lparr> endpoint := [] \<rparr>"
      and h = "useServerDataTable_initial 10 :: nat table_hook"
      and options = "transactions_options None"]
  by (simp add: transactions_options_def report_initial_def useServerDataTable_initial_def)

text \<open>
  Claim C6, as stated, fails for the server table hook with its default error mapper: a
  401 sets the error state to the session-expired message.
\<close>

theorem useServerDataTable_unauthorized_counterexample:
  "error (state (table_settle True 0 (HttpResponse 401 ''Unauthorized'' None None)
      (table_deps_changed (transactions_options (Some ''abc''))
        (useServerDataTable_initial 10 :: nat table_hook))))
   = Some ''Your session has expired. Please sign in again.''"
  by (simp add: table_settle_def table_deps_changed_def table_effect_def table_cleanup_def
      useServerDataTable_initial_def apiRequest_result_def table_failed_def
      table_error_message_def defaultMapErrorMessage_def transactions_options_def)

text \<open>
  Claim C6, amended. When a fetch fails with status 401, a reporting hook sets no error
  message for that call: its error state stays null and loading ends. The server table
  hook does set its error state: to the session-expired message with the default error
  mapper of \<open>ServerDataTable\<close>, and to its generic server message when no mapper is given.
\<close>

theorem unauthorized_error_state:
  "(truthy tok \<longrightarrow>
      fst (apiRequest_result tok reg (HttpResponse 401 t b (j :: 'a option)))
        = Rejected (ApiError 401 t b)
      \<and> error (rstate (report_failed kind (length (cancelled w)) (ApiError 401 t b)
            (report_deps_changed kind tok dateFrom dateTo w))) = None
      \<and> \<not> loading (rstate (report_failed kind (length (cancelled w)) (ApiError 401 t b)
            (report_deps_changed kind tok dateFrom dateTo w))))
   \<and> (endpoint options \<noteq> [] \<and> mapErrorMessage options = Some defaultMapErrorMessage \<longrightarrow>
      error (state (table_settle reg (length (attempts h)) (HttpResponse 401 t b j')
            (table_deps_changed options h)))
        = Some ''Your session has expired. Please sign in again.'')
   \<and> (endpoint options1 \<noteq> [] \<and> mapErrorMessage options1 = None \<longrightarrow>
      error (state (table_settle reg (length (attempts h)) (HttpResponse 401 t b j')
            (table_deps_changed options1 h)))
        = Some ''Failed to load data from server.'')"
proof (intro conjI impI)
  assume "truthy tok"
  then show "error (rstate (report_failed kind (length (cancelled w)) (ApiError 401 t b)
            (report_deps_changed kind tok dateFrom dateTo w))) = None"
    by (simp add: report_failed_def report_deps_changed_def report_effect_def
        report_cleanup_keeps stopLoading_def nth_append)
next
  assume "truthy tok"
  then show "\<not> loading (rstate (report_failed kind (length (cancelled w)) (ApiError 401 t b)
            (report_deps_changed kind tok dateFrom dateTo w)))"
    by (simp add: report_failed_def report_deps_changed_def report_effect_def
        report_cleanup_keeps stopLoading_def nth_append)
next
  show "fst (apiRequest_result tok reg (HttpResponse 401 t b j)) = Rejected (ApiError 401 t b)"
    by (simp add: apiRequest_result_def)
next
  assume "endpoint options \<noteq> [] \<and> mapErrorMessage options = Some defaultMapErrorMessage"
  with attempts_deps_changed [of options h]
  show "error (state (table_settle reg (length (attempts h)) (HttpResponse 401 t b j')
            (table_deps_changed options h)))
        = Some ''Your session has expired. Please sign in again.''"
    by (simp add: table_settle_401 table_error_message_def defaultMapErrorMessage_def)
next
  assume "endpoint options1 \<noteq> [] \<and> mapErrorMessage options1 = None"
  with attempts_deps_changed [of options1 h]
  show "error (state (table_settle reg (length (attempts h)) (HttpResponse 401 t b j')
            (table_deps_changed options1 h)))
        = Some ''Failed to load data from server.''"
    by (simp add: table_settle_401 table_error_message_def)
qed

theorem unauthorized_error_state_witness:
  "truthy (Some ''abc'')
   \<and> error (rstate (report_failed TopUsersLeaderboard 0 (ApiError 401 ''Unauthorized'' None)
        (report_deps_changed TopUsersLeaderboard (Some ''abc'') None None
          (report_initial :: nat report_hook)))) = None
   \<and> endpoint (transactions_options (Some ''abc'')) \<noteq> []
   \<and> mapErrorMessage (transactions_options (Some ''abc'')) = Some defaultMapErrorMessage
   \<and> endpoint ((transactions_options (Some ''abc''))\<lparr> mapErrorMessage := None \<rparr>) \<noteq> []
   \<and> mapErrorMessage ((transactions_options (Some ''abc''))\<lparr> mapErrorMessage := None \<rparr>) = None
   \<and> error (state (table_settle True 0
        (HttpResponse 401 ''Unauthorized'' None (None :: nat DataTablesApiResponse option))
        (table_deps_changed ((transactions_options (Some ''abc''))\<lparr> mapErrorMessage := None \<rparr>)
          (useServerDataTable_initial 10 :: nat table_hook))))
      = Some ''Failed to load data from server.''"
  using unauthorized_error_state [where tok = "Some ''abc''" and reg = True
      and t = "''Unauthorized''" and b = None and j = "None :: nat option"
      and kind = TopUsersLeaderboard and w = "report_initial :: nat report_hook"
      and dateFrom = None and dateTo = None
      and options = "transactions_options (Some ''abc'')"
      and j' = "None :: nat DataTablesApiResponse option"
      and h = "useServerDataTable_initial 10 :: nat table_hook"
      and ?options1.0 = "(transactions_options (Some ''abc''))\<lparr> mapErrorMessage := None \<rparr>"]
  by (simp add: transactions_options_def report_initial_def useServerDataTable_initial_def)

section \<open>Properties of the debounced search controller\<close>

lemma cleanup_clears:
  "one_pending st \<Longrightarrow> timers (debounce_cleanup (st\<lparr> pendingSearch := v \<rparr>)) = []"
  "one_pending st \<Longrightarrow> timers (debounce_cleanup st) = []"
  by (auto simp: one_pending_def debounce_cleanup_def split: list.splits option.splits)

lemma cleanup_fields:
  "search (debounce_cleanup st) = search st" "commits (debounce_cleanup st) = commits st"
  "pendingSearch (debounce_cleanup st) = pendingSearch st" "clock (debounce_cleanup st) = clock st"
  "nextTimeoutId (debounce_cleanup st) = nextTimeoutId st"
  by (auto simp: debounce_cleanup_def split: option.splits)

lemma effect_one_pending: "timers st = [] \<Longrightarrow> one_pending (debounce_effect m d st)"
  by (auto simp: one_pending_def debounce_effect_def Let_def)

lemma deps_changed_one_pending: "one_pending st \<Longrightarrow> one_pending (debounce_deps_changed m d st)"
  by (simp add: debounce_deps_changed_def cleanup_clears effect_one_pending)

lemma setPending_one_pending: "one_pending st \<Longrightarrow> one_pending (setPendingSearch m d v st)"
  by (auto simp: setPendingSearch_def debounce_deps_changed_def cleanup_clears effect_one_pending)

lemma one_pending_upd: "one_pending st \<Longrightarrow> one_pending (st\<lparr> search := s, commits := c \<rparr>)"
  by (auto simp: one_pending_def split: list.splits)

lemma reset_one_pending: "one_pending st \<Longrightarrow> one_pending (reset m d st)"
  by (simp add: reset_def setPending_one_pending one_pending_upd)

lemma foldl_fire_fields:
  "timeoutId (foldl fire st ts) = timeoutId st" "pendingSearch (foldl fire st ts) = pendingSearch st"
  by (induction ts arbitrary: st) (auto simp: fire_def)

lemma advance_one_pending: "one_pending st \<Longrightarrow> one_pending (advance k st)"
  by (auto simp: one_pending_def advance_def Let_def foldl_fire_fields split: list.splits)

lemma step_one_pending: "one_pending st \<Longrightarrow> one_pending (debounce_step m d st e)"
  by (cases e)
     (auto simp: setPending_one_pending reset_one_pending advance_one_pending
        deps_changed_one_pending)

lemma foldl_one_pending: "one_pending st \<Longrightarrow> one_pending (foldl (debounce_step m d) st es)"
  by (induction es arbitrary: st) (auto simp: step_one_pending)

lemma run_one_pending: "one_pending (debounce_run m d init es)"
  unfolding debounce_run_def useDebouncedSearch_mount_def
  by (rule foldl_one_pending) (simp add: effect_one_pending)


lemma immediate_commit:
  assumes "timers st = []" and "int (length (trim (pendingSearch st))) \<ge> m \<or> trim (pendingSearch st) = []"
  shows "debounce_effect m d st
           = st\<lparr> search := trim (pendingSearch st), commits := commits st @ [trim (pendingSearch st)] \<rparr>"
  using assms by (auto simp: debounce_effect_def Let_def)

lemma scheduled_commit:
  assumes "timers st = []" and "\<not> (int (length (trim (pendingSearch st))) \<ge> m \<or> trim (pendingSearch st) = [])"
  shows "debounce_effect m d st
           = st\<lparr> timers := [\<lparr> timer_id = nextTimeoutId st, due = clock st + d,
                               commit_value = trim (pendingSearch st) \<rparr>],
                 nextTimeoutId := nextTimeoutId st + 1,
                 timeoutId := Some (nextTimeoutId st) \<rparr>"
  using assms by (auto simp: debounce_effect_def Let_def)

lemma setPending_immediate:
  assumes "one_pending st" and "v \<noteq> pendingSearch st"
    and "int (length (trim v)) \<ge> m \<or> trim v = []"
  shows "pendingSearch (setPendingSearch m d v st) = v"
    and "search (setPendingSearch m d v st) = trim v"
    and "commits (setPendingSearch m d v st) = commits st @ [trim v]"
    and "timers (setPendingSearch m d v st) = []"
  using assms
  by (simp_all add: setPendingSearch_def debounce_deps_changed_def immediate_commit
      cleanup_clears cleanup_fields)

lemma setPending_scheduled:
  assumes "one_pending st" and "v \<noteq> pendingSearch st"
    and "\<not> (int (length (trim v)) \<ge> m \<or> trim v = [])"
  shows "pendingSearch (setPendingSearch m d v st) = v"
    and "search (setPendingSearch m d v st) = search st"
    and "commits (setPendingSearch m d v st) = commits st"
    and "clock (setPendingSearch m d v st) = clock st"
    and "timers (setPendingSearch m d v st)
           = [\<lparr> timer_id = nextTimeoutId st, due = clock st + d, commit_value = trim v \<rparr>]"
  using assms
  by (simp_all add: setPendingSearch_def debounce_deps_changed_def scheduled_commit
      cleanup_clears cleanup_fields)

lemma advance_single:
  assumes "timers st = [t]"
  shows "due t \<le> clock st + k \<Longrightarrow> search (advance k st) = commit_value t
            \<and> commits (advance k st) = commits st @ [commit_value t] \<and> timers (advance k st) = []"
    and "\<not> due t \<le> clock st + k \<Longrightarrow> search (advance k st) = search st
            \<and> commits (advance k st) = commits st \<and> timers (advance k st) = [t]"
  using assms by (simp_all add: advance_def Let_def fire_def)

lemma reset_result:
  assumes "one_pending st"
  shows "search (reset m d st) = [] \<and> pendingSearch (reset m d st) = []
    \<and> timers (reset m d st) = []
    \<and> (commits (reset m d st) = commits st @ [[]] \<or> commits (reset m d st) = commits st @ [[], []])"
proof (cases "pendingSearch st = []")
  case True
  then have "timers st = []" using assms
    by (auto simp: one_pending_def trim_def split: list.splits)
  with True show ?thesis
    by (simp add: reset_def setPendingSearch_def)
next
  case False
  let ?st1 = "st\<lparr> search := [], commits := commits st @ [[]] \<rparr>"
  have op: "one_pending ?st1" using assms by (rule one_pending_upd)
  from False have ne: "[] \<noteq> pendingSearch ?st1" by simp
  have tr: "int (length (trim [])) \<ge> m \<or> trim [] = []" by (simp add: trim_def)
  from setPending_immediate [OF op ne tr, of d]
  show ?thesis by (simp add: reset_def trim_def)
qed

text \<open>
  Claim C7. In every state the hook can reach by typing, resetting, waiting and rendering
  with a new \<open>onCommit\<close>, a change of \<open>pendingSearch\<close> to a value
  whose trimmed length is at least \<open>minLength\<close> or 0 commits the trimmed value at once
  and leaves no timer pending; a change to any other value commits nothing, leaves
  exactly one timer pending (an earlier one is cleared), and that timer commits the
  trimmed value once \<open>delayMs\<close> have passed, not before; \<open>reset\<close> empties both values,
  leaves no timer pending and commits the empty string.
\<close>

theorem useDebouncedSearch_transitions:
  assumes st: "st = debounce_run minLength delayMs initialValue events"
  shows "(v \<noteq> pendingSearch st \<and> (int (length (trim v)) \<ge> minLength \<or> length (trim v) = 0) \<longrightarrow>
          pendingSearch (setPendingSearch minLength delayMs v st) = v
          \<and> search (setPendingSearch minLength delayMs v st) = trim v
          \<and> commits (setPendingSearch minLength delayMs v st) = commits st @ [trim v]
          \<and> timers (setPendingSearch minLength delayMs v st) = [])
       \<and> (u \<noteq> pendingSearch st
            \<and> \<not> (int (length (trim u)) \<ge> minLength \<or> length (trim u) = 0) \<longrightarrow>
          pendingSearch (setPendingSearch minLength delayMs u st) = u
          \<and> search (setPendingSearch minLength delayMs u st) = search st
          \<and> commits (setPendingSearch minLength delayMs u st) = commits st
          \<and> timers (setPendingSearch minLength delayMs u st)
              = [\<lparr> timer_id = nextTimeoutId st, due = clock st + delayMs, commit_value = trim u \<rparr>]
          \<and> (\<forall>k < delayMs.
                search (advance k (setPendingSearch minLength delayMs u st)) = search st
                \<and> commits (advance k (setPendingSearch minLength delayMs u st)) = commits st)
          \<and> search (advance delayMs (setPendingSearch minLength delayMs u st)) = trim u
          \<and> commits (advance delayMs (setPendingSearch minLength delayMs u st))
              = commits st @ [trim u])
       \<and> (search (reset minLength delayMs st) = [] \<and> pendingSearch (reset minLength delayMs st) = []
          \<and> timers (reset minLength delayMs st) = []
          \<and> (commits (reset minLength delayMs st) = commits st @ [[]]
              \<or> commits (reset minLength delayMs st) = commits st @ [[], []]))"
proof (intro conjI impI)
  have op: "one_pending st" unfolding st by (rule run_one_pending)
  {
    assume v: "v \<noteq> pendingSearch st \<and> (int (length (trim v)) \<ge> minLength \<or> length (trim v) = 0)"
    then have v1: "v \<noteq> pendingSearch st"
      and v2: "int (length (trim v)) \<ge> minLength \<or> trim v = []" by simp_all
    note imm = setPending_immediate [OF op v1 v2, of delayMs]
    show "pendingSearch (setPendingSearch minLength delayMs v st) = v" by (rule imm(1))
    show "search (setPendingSearch minLength delayMs v st) = trim v" by (rule imm(2))
    show "commits (setPendingSearch minLength delayMs v st) = commits st @ [trim v]"
      by (rule imm(3))
    show "timers (setPendingSearch minLength delayMs v st) = []" by (rule imm(4))
  }
  {
    assume u: "u \<noteq> pendingSearch st
      \<and> \<not> (int (length (trim u)) \<ge> minLength \<or> length (trim u) = 0)"
    then have u1: "u \<noteq> pendingSearch st"
      and u2: "\<not> (int (length (trim u)) \<ge> minLength \<or> trim u = [])" by simp_all
    note sch = setPending_scheduled [OF op u1 u2, of delayMs]
    show "pendingSearch (setPendingSearch minLength delayMs u st) = u" by (rule sch(1))
    show "search (setPendingSearch minLength delayMs u st) = search st" by (rule sch(2))
    show "commits (setPendingSearch minLength delayMs u st) = commits st" by (rule sch(3))
    show "timers (setPendingSearch minLength delayMs u st)
        = [\<lparr> timer_id = nextTimeoutId st, due = clock st + delayMs, commit_value = trim u \<rparr>]"
      by (rule sch(5))
    show "\<forall>k < delayMs.
        search (advance k (setPendingSearch minLength delayMs u st)) = search st
        \<and> commits (advance k (setPendingSearch minLength delayMs u st)) = commits st"
      using advance_single(2) [OF sch(5)] sch by simp
    show "search (advance delayMs (setPendingSearch minLength delayMs u st)) = trim u"
      using advance_single(1) [OF sch(5), of delayMs] sch by simp
    show "commits (advance delayMs (setPendingSearch minLength delayMs u st))
        = commits st @ [trim u]"
      using advance_single(1) [OF sch(5), of delayMs] sch by simp
  }
  from reset_result [OF op, of minLength delayMs]
  show "search (reset minLength delayMs st) = []"
    "pendingSearch (reset minLength delayMs st) = []"
    "timers (reset minLength delayMs st) = []"
    "commits (reset minLength delayMs st) = commits st @ [[]]
      \<or> commits (reset minLength delayMs st) = commits st @ [[], []]"
    by simp_all
qed

theorem useDebouncedSearch_transitions_witness:
  "''abc'' \<noteq> pendingSearch (debounce_run 3 2500 [] [SetPending ''a'', Advance 1000])
   \<and> int (length (trim ''abc'')) \<ge> 3
   \<and> ''ab '' \<noteq> pendingSearch (debounce_run 3 2500 [] [SetPending ''a'', Advance 1000])
   \<and> int (length (trim ''ab '')) < 3 \<and> length (trim ''ab '') \<noteq> 0
   \<and> search (setPendingSearch 3 2500 ''abc'' (debounce_run 3 2500 [] [SetPending ''a'', Advance 1000])) = ''abc''
   \<and> timers (setPendingSearch 3 2500 ''ab '' (debounce_run 3 2500 [] [SetPending ''a'', Advance 1000]))
       = [\<lparr> timer_id = 2, due = 3500, commit_value = ''ab'' \<rparr>]
   \<and> search (advance 2500 (setPendingSearch 3 2500 ''ab ''
         (debounce_run 3 2500 [] [SetPending ''a'', Advance 1000]))) = ''ab''
   \<and> timers (reset 3 2500 (debounce_run 3 2500 [] [SetPending ''a'', Advance 1000])) = []"
proof -
  have t: "trim ''abc'' = ''abc''" "trim ''ab '' = ''ab''" "trim ''a'' = ''a''" "trim [] = []"
    by (simp_all add: trim_def is_ws_def)
  have r: "debounce_run 3 2500 [] [SetPending ''a'', Advance 1000]
      = \<lparr> search = [], pendingSearch = ''a'',
          timers = [\<lparr> timer_id = 1, due = 2500, commit_value = ''a'' \<rparr>], nextTimeoutId = 2,
          timeoutId = Some 1, commits = [[]], clock = 1000 \<rparr>"
    by (simp add: debounce_run_def useDebouncedSearch_mount_def debounce_effect_def
        setPendingSearch_def debounce_deps_changed_def debounce_cleanup_def advance_def t
        Let_def)
  from useDebouncedSearch_transitions [of _ 3 2500 "[]" "[SetPending ''a'', Advance 1000]"
      "''abc''" "''ab ''", OF refl]
  show ?thesis by (simp add: r t)
qed

end
